theory Spec2Isabelle
  imports Main "HOL-Library.Word" "HOL-Library.AList"
begin

section \<open>Shared-memory handler: a shallow embedding of shared\_memory\_handler.py\<close>

text \<open>
  The module keeps two process-wide dictionaries of \<^verbatim>\<open>SharedMemory\<close> objects (those
  created here, those attached from elsewhere), creates and looks up segments through
  them, sweeps them at process exit, and offers a class that overlays a fixed-stride
  array on the mapped bytes. Each Python function below becomes a HOL function of the
  same name; a raise becomes a value \<open>Inl e\<close>, the module's global dictionaries and the
  platform's segments become fields of an explicit state that every function returns
  updated (also when it raises: what was mutated before the raise stays mutated).
\<close>

subsection \<open>Values, errors, the platform's Struct\<close>

type_synonym byte = "8 word"

text \<open>The exception classes that the module raises or that reach it from the platform
  (\<open>OSError\<close> stands for any failure of a system call that has no class of its own here).
  \<open>CleanupFailed\<close> is the plain \<^verbatim>\<open>Exception("Failed to cleanup shared memory: ...")\<close>
  of \<^verbatim>\<open>add_shared_memory\<close>.\<close>

datatype error =
    ValueError | IndexError | KeyError | TypeError | AttributeError
  | FileNotFoundError | FileExistsError | BufferError | StructError | OSError | CleanupFailed

text \<open>What \<^verbatim>\<open>get_at\<close> returns and \<^verbatim>\<open>set_at\<close> accepts: an integer (one byte of a
  raw view) or a tuple of fields (one record). The field type is a parameter.\<close>

datatype 'a pyval = PyInt int | PyTuple "'a list"

text \<open>A compiled \<^verbatim>\<open>struct.Struct\<close> is taken as a parameter: its packed size, its
  packing function (\<open>None\<close> where \<^verbatim>\<open>struct.error\<close> is raised) and its unpacking
  function on exactly \<open>struct_size\<close> bytes.\<close>

record 'a struct =
  struct_size :: nat
  struct_pack :: "'a list \<Rightarrow> byte list option"
  struct_unpack :: "byte list \<Rightarrow> 'a list"

text \<open>The format \<^verbatim>\<open>"BBB"\<close> of tests/random\_read.py: three unsigned bytes.\<close>

definition struct_BBB :: "int struct" where
  "struct_BBB =
     \<lparr> struct_size = 3,
       struct_pack = (\<lambda>vs. if length vs = 3 \<and> list_all (\<lambda>v. 0 \<le> v \<and> v \<le> 255) vs
                            then Some (map word_of_int vs) else None),
       struct_unpack = map uint \<rparr>"

text \<open>\<^verbatim>\<open>Struct.unpack_from(buffer, offset)\<close> and \<^verbatim>\<open>Struct.pack_into(buffer, offset, *v)\<close>
  on a buffer that may be \<^verbatim>\<open>None\<close>. A negative offset counts from the end of the
  buffer; a buffer too short for one record is a \<^verbatim>\<open>struct.error\<close>.\<close>

definition unpack_from :: "'a struct \<Rightarrow> byte list option \<Rightarrow> int \<Rightarrow> error + 'a list" where
  "unpack_from s buffer offset =
     (case buffer of
        None \<Rightarrow> Inl TypeError
      | Some d \<Rightarrow>
          (let off = (if offset < 0 then offset + int (length d) else offset)
           in if off < 0 \<or> int (length d) - off < int (struct_size s) then Inl StructError
              else Inr (struct_unpack s (take (struct_size s) (drop (nat off) d)))))"

definition pack_into :: "'a struct \<Rightarrow> byte list option \<Rightarrow> int \<Rightarrow> 'a list \<Rightarrow> error + byte list" where
  "pack_into s buffer offset vs =
     (case buffer of
        None \<Rightarrow> Inl TypeError
      | Some d \<Rightarrow>
          (let off = (if offset < 0 then offset + int (length d) else offset)
           in if off < 0 \<or> int (length d) - off < int (struct_size s) then Inl StructError
              else (case struct_pack s vs of
                      None \<Rightarrow> Inl StructError
                    | Some bs \<Rightarrow> Inr (take (nat off) d @ bs @ drop (nat off + length bs) d))))"

text \<open>Indexing a one-dimensional byte \<^verbatim>\<open>memoryview\<close>: \<^verbatim>\<open>mv[i]\<close> and \<^verbatim>\<open>mv[i] = x\<close>.
  Reading yields an integer in \<open>0..255\<close>; storing a tuple is a \<^verbatim>\<open>TypeError\<close>, storing an
  integer outside \<open>0..255\<close> a \<^verbatim>\<open>ValueError\<close>; \<^verbatim>\<open>None[i]\<close> is a \<^verbatim>\<open>TypeError\<close>.\<close>

definition mv_getitem :: "byte list option \<Rightarrow> int \<Rightarrow> error + 'a pyval" where
  "mv_getitem buffer i =
     (case buffer of
        None \<Rightarrow> Inl TypeError
      | Some d \<Rightarrow>
          (let j = (if i < 0 then i + int (length d) else i)
           in if 0 \<le> j \<and> j < int (length d) then Inr (PyInt (uint (d ! nat j)))
              else Inl IndexError))"

definition mv_setitem :: "byte list option \<Rightarrow> int \<Rightarrow> 'a pyval \<Rightarrow> error + byte list" where
  "mv_setitem buffer i x =
     (case buffer of
        None \<Rightarrow> Inl TypeError
      | Some d \<Rightarrow>
          (let j = (if i < 0 then i + int (length d) else i)
           in if 0 \<le> j \<and> j < int (length d)
              then (case x of
                      PyTuple _ \<Rightarrow> Inl TypeError
                    | PyInt k \<Rightarrow> if 0 \<le> k \<and> k \<le> 255 then Inr (d[nat j := word_of_int k])
                                 else Inl ValueError)
              else Inl IndexError))"

subsection \<open>The class SharedMemoryHandlee: indexed access\<close>

text \<open>The four slots of an instance. \<open>smh_name\<close> is \<open>None\<close> when \<^verbatim>\<open>add_shared_memory\<close>
  returned \<^verbatim>\<open>None\<close>; \<open>smh_struct\<close> is \<open>None\<close> for a raw view; \<open>smh_data\<close> is the content
  of the mapped region as this view sees it, \<open>None\<close> when the lookup returned the
  \<^verbatim>\<open>buf\<close> of a closed \<^verbatim>\<open>SharedMemory\<close>.\<close>

record 'a view =
  smh_name :: "string option"
  smh_length :: int
  smh_struct :: "'a struct option"
  smh_data :: "byte list option"

text \<open>The property \<^verbatim>\<open>size\<close>: \<^verbatim>\<open>self._smh_struct.size * self._smh_length\<close>, an
  attribute access on \<^verbatim>\<open>None\<close> for a raw view.\<close>

definition size_view :: "'a view \<Rightarrow> error + int" where
  "size_view v =
     (case smh_struct v of
        None \<Rightarrow> Inl AttributeError
      | Some s \<Rightarrow> Inr (int (struct_size s) * smh_length v))"

definition len_view :: "'a view \<Rightarrow> int" where
  "len_view v = smh_length v"

text \<open>\<^verbatim>\<open>get_at\<close>, line by line: a negative index is replaced by \<^verbatim>\<open>length - index\<close>, the
  range check is \<^verbatim>\<open>0 < index < length\<close>.\<close>

definition get_at :: "'a view \<Rightarrow> int \<Rightarrow> error + 'a pyval" where
  "get_at v index0 =
     (let len = smh_length v;
          index = (if index0 < 0 then len - index0 else index0)
      in if \<not> (0 < index \<and> index < len) then Inl IndexError
         else (case smh_struct v of
                 Some s \<Rightarrow>
                   (case unpack_from s (smh_data v) (int (struct_size s) * index) of
                      Inl e \<Rightarrow> Inl e
                    | Inr fs \<Rightarrow> Inr (PyTuple fs))
               | None \<Rightarrow> mv_getitem (smh_data v) index))"

text \<open>\<^verbatim>\<open>set_at\<close>: the same index arithmetic, the range check is \<^verbatim>\<open>0 <= index < length\<close>.
  In record mode \<^verbatim>\<open>*values\<close> unpacks the tuple (an integer is not iterable).\<close>

definition set_at :: "'a view \<Rightarrow> int \<Rightarrow> 'a pyval \<Rightarrow> error + 'a view" where
  "set_at v index0 values =
     (let len = smh_length v;
          index = (if index0 < 0 then len - index0 else index0)
      in if \<not> (0 \<le> index \<and> index < len) then Inl IndexError
         else (case smh_struct v of
                 Some s \<Rightarrow>
                   (case values of
                      PyInt _ \<Rightarrow> Inl TypeError
                    | PyTuple vs \<Rightarrow>
                        (case pack_into s (smh_data v) (int (struct_size s) * index) vs of
                           Inl e \<Rightarrow> Inl e
                         | Inr d \<Rightarrow> Inr (v\<lparr>smh_data := Some d\<rparr>)))
               | None \<Rightarrow>
                   (case mv_setitem (smh_data v) index values of
                      Inl e \<Rightarrow> Inl e
                    | Inr d \<Rightarrow> Inr (v\<lparr>smh_data := Some d\<rparr>))))"

subsection \<open>The platform: named segments and SharedMemory objects\<close>

text \<open>A \<^verbatim>\<open>multiprocessing.shared_memory.SharedMemory\<close> object of this process: the name
  it was opened under, its \<^verbatim>\<open>buf\<close> (\<open>None\<close> once closed) and the number of sub-views
  exported from \<^verbatim>\<open>buf\<close> that user code still holds (closing then raises
  \<^verbatim>\<open>BufferError\<close>).\<close>

record shm =
  shm_name :: string
  shm_buf :: "byte list option"
  shm_exports :: nat

text \<open>Every call that the module makes on the platform is logged, in order, whether it
  succeeds or raises.\<close>

datatype call = Create string | Attach string | Close string | Unlink string

text \<open>The two messages that \<^verbatim>\<open>_cleanup\<close> prints, with the process name and the error.\<close>

datatype report = ErrorClosingOutside string error | ErrorClosingWithin string error

text \<open>The state of one process: \<^verbatim>\<open>current_process().name\<close>, the random source behind
  \<^verbatim>\<open>uuid4().int\<close> (the \<open>k\<close>-th draw is \<open>uuid4_int k\<close>), the two module-level
  dictionaries in insertion order, the segments that exist at the level of the operating
  system (name and content), the log of platform calls and the printed reports.
  \<open>platform_fault\<close> lets the system fail a call for a reason outside the model (an
  invalid name, a refused permission, exhausted memory): when it gives \<open>Some e\<close> for a
  call, that call raises \<open>e\<close> and does nothing.\<close>

record state =
  current_process_name :: string
  uuid4_int :: "nat \<Rightarrow> nat"
  uuid4_drawn :: nat
  global_shared_memory_objects :: "(string \<times> shm) list"
  local_shared_memory_objects :: "(string \<times> shm) list"
  segments :: "(string \<times> byte list) list"
  calls :: "call list"
  printed :: "report list"
  platform_fault :: "call \<Rightarrow> error option"

text \<open>\<^verbatim>\<open>SharedMemory(name, create=True, size=sz)\<close>: a non-positive size is rejected before
  the system is asked; an existing name is \<^verbatim>\<open>FileExistsError\<close>; the new segment is
  zero-filled.\<close>

definition SharedMemory_create :: "string \<Rightarrow> int \<Rightarrow> state \<Rightarrow> (error + shm) \<times> state" where
  "SharedMemory_create name sz st =
     (if sz \<le> 0 then (Inl ValueError, st)
      else (let st1 = st\<lparr>calls := calls st @ [Create name]\<rparr>
            in case platform_fault st (Create name) of
                 Some e \<Rightarrow> (Inl e, st1)
               | None \<Rightarrow>
                   (case map_of (segments st) name of
                      Some _ \<Rightarrow> (Inl FileExistsError, st1)
                    | None \<Rightarrow>
                        (let bytes = replicate (nat sz) 0
                         in (Inr \<lparr>shm_name = name, shm_buf = Some bytes, shm_exports = 0\<rparr>,
                             st1\<lparr>segments := AList.update name bytes (segments st1)\<rparr>)))))"

text \<open>\<^verbatim>\<open>SharedMemory(name, create=False)\<close>: the fault of the system if there is one (the
  empty name, for one, is refused with an \<^verbatim>\<open>OSError\<close>), else \<^verbatim>\<open>FileNotFoundError\<close> when no
  segment has the name.\<close>

definition SharedMemory_attach :: "string \<Rightarrow> state \<Rightarrow> (error + shm) \<times> state" where
  "SharedMemory_attach name st =
     (let st1 = st\<lparr>calls := calls st @ [Attach name]\<rparr>
      in case platform_fault st (Attach name) of
           Some e \<Rightarrow> (Inl e, st1)
         | None \<Rightarrow>
             (case map_of (segments st) name of
                None \<Rightarrow> (Inl FileNotFoundError, st1)
              | Some bytes \<Rightarrow>
                  (Inr \<lparr>shm_name = name, shm_buf = Some bytes, shm_exports = 0\<rparr>, st1)))"

text \<open>What \<^verbatim>\<open>shm.close()\<close> raises, if anything: the fault of the system, or \<^verbatim>\<open>BufferError\<close>
  when \<^verbatim>\<open>buf\<close> is released while exported sub-views exist. Closing a closed object does
  nothing.\<close>

definition close_error :: "(call \<Rightarrow> error option) \<Rightarrow> shm \<Rightarrow> error option" where
  "close_error fault shm =
     (case fault (Close (shm_name shm)) of
        Some e \<Rightarrow> Some e
      | None \<Rightarrow> if shm_buf shm \<noteq> None \<and> 0 < shm_exports shm then Some BufferError else None)"

definition SharedMemory_close :: "shm \<Rightarrow> state \<Rightarrow> (error + shm) \<times> state" where
  "SharedMemory_close shm st =
     (let st1 = st\<lparr>calls := calls st @ [Close (shm_name shm)]\<rparr>
      in case close_error (platform_fault st) shm of
           Some e \<Rightarrow> (Inl e, st1)
         | None \<Rightarrow> (Inr (shm\<lparr>shm_buf := None\<rparr>), st1))"

text \<open>\<^verbatim>\<open>shm.unlink()\<close>: removes the name from the system; \<^verbatim>\<open>FileNotFoundError\<close> when it
  is already gone.\<close>

definition SharedMemory_unlink :: "shm \<Rightarrow> state \<Rightarrow> (error + unit) \<times> state" where
  "SharedMemory_unlink shm st =
     (let st1 = st\<lparr>calls := calls st @ [Unlink (shm_name shm)]\<rparr>
      in case platform_fault st (Unlink (shm_name shm)) of
           Some e \<Rightarrow> (Inl e, st1)
         | None \<Rightarrow>
             (case map_of (segments st) (shm_name shm) of
                None \<Rightarrow> (Inl FileNotFoundError, st1)
              | Some _ \<Rightarrow>
                  (Inr (), st1\<lparr>segments := AList.delete (shm_name shm) (segments st1)\<rparr>)))"

subsection \<open>\_cleanup\<close>

text \<open>The two \<^verbatim>\<open>except\<close> clauses shared by both loops: \<^verbatim>\<open>FileNotFoundError\<close> is passed
  over, any other \<^verbatim>\<open>Exception\<close> is printed.\<close>

definition except_clauses :: "(string \<Rightarrow> error \<Rightarrow> report) \<Rightarrow> error \<Rightarrow> state \<Rightarrow> state" where
  "except_clauses message e st =
     (case e of
        FileNotFoundError \<Rightarrow> st
      | _ \<Rightarrow> st\<lparr>printed := printed st @ [message (current_process_name st) e]\<rparr>)"

text \<open>The body of the first loop (a \<^verbatim>\<open>SharedMemory\<close> object is always truthy) and of the
  second; each returns the object as the call left it.\<close>

definition cleanup_global_body :: "shm \<Rightarrow> state \<Rightarrow> shm \<times> state" where
  "cleanup_global_body shm st =
     (case SharedMemory_close shm st of
        (Inr shm1, st1) \<Rightarrow> (shm1, st1)
      | (Inl e, st1) \<Rightarrow> (shm, except_clauses ErrorClosingOutside e st1))"

definition cleanup_local_body :: "shm \<Rightarrow> state \<Rightarrow> shm \<times> state" where
  "cleanup_local_body shm st =
     (case SharedMemory_close shm st of
        (Inl e, st1) \<Rightarrow> (shm, except_clauses ErrorClosingWithin e st1)
      | (Inr shm1, st1) \<Rightarrow>
          (case SharedMemory_unlink shm1 st1 of
             (Inl e, st2) \<Rightarrow> (shm1, except_clauses ErrorClosingWithin e st2)
           | (Inr _, st2) \<Rightarrow> (shm1, st2)))"

text \<open>\<^verbatim>\<open>for shared_memory in d.values(): body\<close>, the objects mutated in place.\<close>

fun for_values ::
  "(shm \<Rightarrow> state \<Rightarrow> shm \<times> state) \<Rightarrow> (string \<times> shm) list \<Rightarrow> state \<Rightarrow> (string \<times> shm) list \<times> state"
where
  "for_values body [] st = ([], st)"
| "for_values body ((k, shm) # rest) st =
     (case body shm st of
        (shm1, st1) \<Rightarrow>
          (case for_values body rest st1 of
             (rest1, st2) \<Rightarrow> ((k, shm1) # rest1, st2)))"

definition cleanup :: "state \<Rightarrow> state" where
  "cleanup st =
     (case for_values cleanup_global_body (global_shared_memory_objects st) st of
        (g, st1) \<Rightarrow>
          (let st2 = st1\<lparr>global_shared_memory_objects := g\<rparr>
           in case for_values cleanup_local_body (local_shared_memory_objects st2) st2 of
                (l, st3) \<Rightarrow> st3\<lparr>local_shared_memory_objects := l\<rparr>))"

subsection \<open>\_random\_name\<close>

definition MAX_NAME_LENGTH :: int where
  "MAX_NAME_LENGTH = 30"

definition LOOKUP :: string where
  "LOOKUP = ''0123456789_ABCDEFGHIJKLMNOPQRSTUVWXYZ_abcdefghijklmnopqrstuvwxyz''"

text \<open>The loop \<^verbatim>\<open>for i in range(rest_length): n, r = divmod(n, 64); random_part[i] = LOOKUP[r]\<close>,
  by the number of rounds still to run.\<close>

fun random_part :: "nat \<Rightarrow> nat \<Rightarrow> string" where
  "random_part 0 n = []"
| "random_part (Suc k) n = (LOOKUP ! (n mod 64)) # random_part k (n div 64)"

text \<open>\<^verbatim>\<open>rest_length\<close> is an integer difference; when it is negative, \<^verbatim>\<open>[None] * rest_length\<close>
  is the empty list and \<^verbatim>\<open>range(rest_length)\<close> is empty, which is what \<open>nat\<close> gives.\<close>

definition random_name :: "state \<Rightarrow> string \<times> state" where
  "random_name st =
     (let process_name = current_process_name st;
          rest_length = MAX_NAME_LENGTH - int (length process_name);
          n = uuid4_int st (uuid4_drawn st)
      in (process_name @ random_part (nat rest_length) n,
          st\<lparr>uuid4_drawn := Suc (uuid4_drawn st)\<rparr>))"

subsection \<open>add\_shared\_memory\<close>

text \<open>\<^verbatim>\<open>while name in global_shared_memory_objects or name in local_shared_memory_objects:
  name = _random_name()\<close>. The loop has no bound of its own: the first argument is fuel,
  and \<open>None\<close> means that the fuel ran out.\<close>

fun while_name_taken :: "nat \<Rightarrow> string \<Rightarrow> state \<Rightarrow> (string \<times> state) option" where
  "while_name_taken fuel name st =
     (if map_of (global_shared_memory_objects st) name \<noteq> None
         \<or> map_of (local_shared_memory_objects st) name \<noteq> None
      then (case fuel of
              0 \<Rightarrow> None
            | Suc fuel1 \<Rightarrow> (case random_name st of (name1, st1) \<Rightarrow> while_name_taken fuel1 name1 st1))
      else Some (name, st))"

text \<open>The function proper. Its \<^verbatim>\<open>name\<close> parameter is overwritten before it is read, so
  the model has none. The result is \<open>Some name\<close> for a returned string and \<open>None\<close> for
  Python's \<^verbatim>\<open>None\<close>: the \<^verbatim>\<open>except FileExistsError\<close> branch calls the function again
  and drops what the call returns. In the last branch the constructor has raised, so
  \<^verbatim>\<open>shm\<close> is unbound and \<^verbatim>\<open>if shm\<close> raises inside the inner \<^verbatim>\<open>try\<close>, which turns it
  into the plain \<^verbatim>\<open>Exception\<close>. Fuel counts the calls of the function as well.\<close>

fun add_shared_memory :: "nat \<Rightarrow> int \<Rightarrow> state \<Rightarrow> ((error + string option) \<times> state) option" where
  "add_shared_memory 0 sz st = (if sz \<le> 0 then Some (Inl ValueError, st) else None)"
| "add_shared_memory (Suc fuel) sz st =
     (if sz \<le> 0 then Some (Inl ValueError, st)
      else (case random_name st of
              (name0, st0) \<Rightarrow>
                (case while_name_taken fuel name0 st0 of
                   None \<Rightarrow> None
                 | Some (name, st1) \<Rightarrow>
                     (case SharedMemory_create name sz st1 of
                        (Inr shm, st2) \<Rightarrow>
                          Some (Inr (Some (shm_name shm)),
                                st2\<lparr>local_shared_memory_objects :=
                                      AList.update name shm (local_shared_memory_objects st2)\<rparr>)
                      | (Inl FileExistsError, st2) \<Rightarrow>
                          (case SharedMemory_attach name st2 of
                             (Inl e, st3) \<Rightarrow> Some (Inl e, st3)
                           | (Inr stale, st3) \<Rightarrow>
                               (case SharedMemory_close stale st3 of
                                  (Inl e, st4) \<Rightarrow> Some (Inl e, st4)
                                | (Inr stale1, st4) \<Rightarrow>
                                    (case SharedMemory_unlink stale1 st4 of
                                       (Inl e, st5) \<Rightarrow> Some (Inl e, st5)
                                     | (Inr _, st5) \<Rightarrow>
                                         (case add_shared_memory fuel sz st5 of
                                            None \<Rightarrow> None
                                          | Some (Inl e, st6) \<Rightarrow> Some (Inl e, st6)
                                          | Some (Inr _, st6) \<Rightarrow> Some (Inr None, st6)))))
                      | (Inl e, st2) \<Rightarrow> Some (Inl CleanupFailed, st2)))))"

subsection \<open>get\_memory\_view and \_get\_shared\_memory\<close>

definition get_memory_view :: "string \<Rightarrow> state \<Rightarrow> (error + byte list option) \<times> state" where
  "get_memory_view name st =
     (case map_of (local_shared_memory_objects st) name of
        Some shm \<Rightarrow> (Inr (shm_buf shm), st)
      | None \<Rightarrow>
          (case map_of (global_shared_memory_objects st) name of
             Some shm \<Rightarrow> (Inr (shm_buf shm), st)
           | None \<Rightarrow>
               (case SharedMemory_attach name st of
                  (Inr shm, st1) \<Rightarrow>
                    (Inr (shm_buf shm),
                     st1\<lparr>global_shared_memory_objects :=
                           AList.update name shm (global_shared_memory_objects st1)\<rparr>)
                | (Inl FileNotFoundError, st1) \<Rightarrow> (Inl FileNotFoundError, st1)
                | (Inl e, st1) \<Rightarrow> (Inl e, st1))))"

definition get_shared_memory :: "string \<Rightarrow> state \<Rightarrow> (error + shm) \<times> state" where
  "get_shared_memory name st =
     (case map_of (local_shared_memory_objects st) name of
        Some shm \<Rightarrow> (Inr shm, st)
      | None \<Rightarrow>
          (case map_of (global_shared_memory_objects st) name of
             Some shm \<Rightarrow> (Inr shm, st)
           | None \<Rightarrow>
               (case SharedMemory_attach name st of
                  (Inr shm, st1) \<Rightarrow>
                    (Inr shm,
                     st1\<lparr>global_shared_memory_objects :=
                           AList.update name shm (global_shared_memory_objects st1)\<rparr>)
                | (Inl FileNotFoundError, st1) \<Rightarrow> (Inl FileNotFoundError, st1)
                | (Inl e, st1) \<Rightarrow> (Inl e, st1))))"

subsection \<open>The class SharedMemoryHandlee: construction and release\<close>

text \<open>\<^verbatim>\<open>__init__\<close>. When \<^verbatim>\<open>add_shared_memory\<close> returned \<^verbatim>\<open>None\<close>, the lookup reaches
  \<^verbatim>\<open>SharedMemory(None, create=False)\<close>, which is a \<^verbatim>\<open>ValueError\<close> of the platform.\<close>

definition init_view ::
  "nat \<Rightarrow> int \<Rightarrow> 'a struct option \<Rightarrow> state \<Rightarrow> ((error + 'a view) \<times> state) option" where
  "init_view fuel len struct st =
     (if len \<le> 0 then Some (Inl ValueError, st)
      else (let sz = (case struct of Some s \<Rightarrow> int (struct_size s) * len | None \<Rightarrow> len)
            in case add_shared_memory fuel sz st of
                 None \<Rightarrow> None
               | Some (Inl e, st1) \<Rightarrow> Some (Inl e, st1)
               | Some (Inr None, st1) \<Rightarrow> Some (Inl ValueError, st1)
               | Some (Inr (Some name), st1) \<Rightarrow>
                   (case get_memory_view name st1 of
                      (Inl e, st2) \<Rightarrow> Some (Inl e, st2)
                    | (Inr data, st2) \<Rightarrow>
                        Some (Inr \<lparr>smh_name = Some name, smh_length = len,
                                   smh_struct = struct, smh_data = data\<rparr>, st2))))"

text \<open>\<^verbatim>\<open>close\<close> mutates the \<^verbatim>\<open>SharedMemory\<close> object that a dictionary holds; the model
  stores the closed object back under the key it was found at.\<close>

definition store_closed :: "string \<Rightarrow> shm \<Rightarrow> state \<Rightarrow> state" where
  "store_closed name shm st =
     (if map_of (local_shared_memory_objects st) name \<noteq> None
      then st\<lparr>local_shared_memory_objects := AList.update name shm (local_shared_memory_objects st)\<rparr>
      else st\<lparr>global_shared_memory_objects := AList.update name shm (global_shared_memory_objects st)\<rparr>)"

text \<open>\<^verbatim>\<open>__exit__\<close>: look the object up, close it, unlink it, then
  \<^verbatim>\<open>del local_shared_memory_objects[name]\<close>, a \<^verbatim>\<open>KeyError\<close> when the key is absent.\<close>

definition exit_view :: "'a view \<Rightarrow> state \<Rightarrow> (error + unit) \<times> state" where
  "exit_view v st =
     (case smh_name v of
        None \<Rightarrow> (Inl ValueError, st)
      | Some name \<Rightarrow>
          (case get_shared_memory name st of
             (Inl e, st1) \<Rightarrow> (Inl e, st1)
           | (Inr shm, st1) \<Rightarrow>
               (case SharedMemory_close shm st1 of
                  (Inl e, st2) \<Rightarrow> (Inl e, st2)
                | (Inr shm1, st2) \<Rightarrow>
                    (case SharedMemory_unlink shm1 (store_closed name shm1 st2) of
                       (Inl e, st3) \<Rightarrow> (Inl e, st3)
                     | (Inr _, st3) \<Rightarrow>
                         (case map_of (local_shared_memory_objects st3) name of
                            None \<Rightarrow> (Inl KeyError, st3)
                          | Some _ \<Rightarrow>
                              (Inr (),
                               st3\<lparr>local_shared_memory_objects :=
                                     AList.delete name (local_shared_memory_objects st3)\<rparr>))))))"

text \<open>\<^verbatim>\<open>__del__\<close>: look the object up and close it.\<close>

definition del_view :: "'a view \<Rightarrow> state \<Rightarrow> (error + unit) \<times> state" where
  "del_view v st =
     (case smh_name v of
        None \<Rightarrow> (Inl ValueError, st)
      | Some name \<Rightarrow>
          (case get_shared_memory name st of
             (Inl e, st1) \<Rightarrow> (Inl e, st1)
           | (Inr shm, st1) \<Rightarrow>
               (case SharedMemory_close shm st1 of
                  (Inl e, st2) \<Rightarrow> (Inl e, st2)
                | (Inr shm1, st2) \<Rightarrow> (Inr (), store_closed name shm1 st2))))"

subsection \<open>Properties as the specification words them\<close>

text \<open>The registry invariant of the specification: no name is a key of both
  dictionaries.\<close>

definition partitions_disjoint :: "state \<Rightarrow> bool" where
  "partitions_disjoint st =
     (fst ` set (local_shared_memory_objects st) \<inter> fst ` set (global_shared_memory_objects st) = {})"

text \<open>The alphabet as the specification describes it: digits, underscore, upper-case and
  lower-case letters.\<close>

definition alphabet :: "char set" where
  "alphabet = set ''0123456789'' \<union> {CHR ''_''} \<union> set ''ABCDEFGHIJKLMNOPQRSTUVWXYZ''
     \<union> set ''abcdefghijklmnopqrstuvwxyz''"

text \<open>What the sweep prints for the outcome of one call: nothing when the call returned or
  raised \<^verbatim>\<open>FileNotFoundError\<close>, one report otherwise.\<close>

definition reported :: "(string \<Rightarrow> error \<Rightarrow> report) \<Rightarrow> string \<Rightarrow> error option \<Rightarrow> report list" where
  "reported message process_name outcome =
     (case outcome of
        None \<Rightarrow> []
      | Some FileNotFoundError \<Rightarrow> []
      | Some e \<Rightarrow> [message process_name e])"

subsection \<open>Concrete states and views\<close>

text \<open>A fresh main process whose \<open>k\<close>-th random draw is \<open>k\<close>: the first generated name is
  \<open>name0\<close>, the second \<open>name1\<close>.\<close>

definition st_init :: state where
  "st_init =
     \<lparr> current_process_name = ''MainProcess'', uuid4_int = (\<lambda>k. k), uuid4_drawn = 0,
       global_shared_memory_objects = [], local_shared_memory_objects = [],
       segments = [], calls = [], printed = [], platform_fault = (\<lambda>c. None) \<rparr>"

definition name0 :: string where
  "name0 = ''MainProcess0000000000000000000''"

definition name1 :: string where
  "name1 = ''MainProcess1000000000000000000''"

text \<open>The same process when a segment called \<open>name0\<close> was left behind by an earlier run.\<close>

definition st_stale :: state where
  "st_stale = st_init\<lparr>segments := [(name0, [1, 2, 3, 4])]\<rparr>"

text \<open>A process whose name has 31 characters, before and after it created its first
  segment.\<close>

definition st_long :: state where
  "st_long = st_init\<lparr>current_process_name := ''ForkPoolWorker-1234567890123456''\<rparr>"

definition st_long_created :: state where
  "st_long_created =
     st_long\<lparr>uuid4_drawn := 1,
       local_shared_memory_objects :=
         [(''ForkPoolWorker-1234567890123456'',
           \<lparr>shm_name = ''ForkPoolWorker-1234567890123456'', shm_buf = Some [0, 0, 0, 0],
            shm_exports = 0\<rparr>)],
       segments := [(''ForkPoolWorker-1234567890123456'', [0, 0, 0, 0])],
       calls := [Create ''ForkPoolWorker-1234567890123456'']\<rparr>"

text \<open>A process for which the system refuses to attach to the empty name.\<close>

definition st_refusing :: state where
  "st_refusing =
     st_init\<lparr>platform_fault := (\<lambda>c. if c = Attach [] then Some OSError else None)\<rparr>"

text \<open>A segment of three bytes that another process created, this process before and
  after it looked the segment up, the view it rebuilt from the transmitted name, and the
  state once the owner has unlinked the segment.\<close>

definition other_name :: string where
  "other_name = ''Process-1000000000000000000000''"

definition st_other :: state where
  "st_other = st_init\<lparr>segments := [(other_name, [0, 0, 0])]\<rparr>"

definition st_attached :: state where
  "st_attached = snd (get_memory_view other_name st_other)"

definition foreign_view :: "int view" where
  "foreign_view =
     \<lparr>smh_name = Some other_name, smh_length = 3, smh_struct = None, smh_data = Some [0, 0, 0]\<rparr>"


text \<open>A bound raw view of two bytes, and a bound record view of two \<^verbatim>\<open>"BBB"\<close> records.\<close>

definition raw_view :: "int view" where
  "raw_view =
     \<lparr>smh_name = Some name0, smh_length = 2, smh_struct = None, smh_data = Some [10, 20]\<rparr>"

definition bbb_view :: "int view" where
  "bbb_view =
     \<lparr>smh_name = Some name0, smh_length = 2, smh_struct = Some struct_BBB,
      smh_data = Some [1, 2, 3, 4, 5, 6]\<rparr>"

text \<open>A process at exit: an attached object with an exported sub-view still alive, a
  created object whose \<^verbatim>\<open>unlink\<close> the system refuses, and a created object whose segment
  is already gone.\<close>

definition st_sweep :: state where
  "st_sweep =
     st_init\<lparr>
       global_shared_memory_objects :=
         [(other_name, \<lparr>shm_name = other_name, shm_buf = Some [0], shm_exports = 1\<rparr>)],
       local_shared_memory_objects :=
         [(name0, \<lparr>shm_name = name0, shm_buf = Some [0], shm_exports = 0\<rparr>),
          (name1, \<lparr>shm_name = name1, shm_buf = Some [0], shm_exports = 0\<rparr>)],
       segments := [(other_name, [0]), (name0, [0])],
       platform_fault := (\<lambda>c. if c = Unlink name0 then Some OSError else None)\<rparr>"

section \<open>Indexed access\<close>

lemma get_at_negative: "i < 0 \<Longrightarrow> get_at v i = Inl IndexError"
  by (simp add: get_at_def Let_def)

lemma get_at_zero: "get_at v 0 = Inl IndexError"
  by (simp add: get_at_def Let_def)

lemma get_at_out_of_range:
  "smh_length v \<le> i \<or> i < - smh_length v \<Longrightarrow> get_at v i = Inl IndexError"
  by (auto simp add: get_at_def Let_def)

lemma set_at_out_of_range:
  "smh_length v \<le> i \<or> i < - smh_length v \<Longrightarrow> set_at v i x = Inl IndexError"
  by (auto simp add: set_at_def Let_def)

text \<open>
  Claim C1, first half, on the two-byte raw view: \<^verbatim>\<open>get_at(-1)\<close> should return what
  \<^verbatim>\<open>get_at(element_count - 1)\<close> returns, the byte 20. The source computes
  \<^verbatim>\<open>length - index\<close> for a negative index, which is \<open>3\<close> here, and raises \<^verbatim>\<open>IndexError\<close>.
\<close>

theorem get_at_minus_one_raises:
  "get_at raw_view (- 1) = Inl IndexError \<and> get_at raw_view (smh_length raw_view - 1) = Inr (PyInt 20)"
  by (simp add: get_at_def raw_view_def mv_getitem_def)

text \<open>
  Claim C2 at the valid index \<open>0\<close> of the two-byte raw view: \<^verbatim>\<open>set_at(0, 7)\<close> stores the
  byte, and \<^verbatim>\<open>get_at(0)\<close> on the result raises \<^verbatim>\<open>IndexError\<close> instead of returning 7,
  because the range check of \<^verbatim>\<open>get_at\<close> is \<^verbatim>\<open>0 < index\<close>.
\<close>

theorem set_at_then_get_at_zero_raises:
  "set_at raw_view 0 (PyInt 7) = Inr (raw_view\<lparr>smh_data := Some [7, 20]\<rparr>)
   \<and> get_at (raw_view\<lparr>smh_data := Some [7, 20]\<rparr>) 0 = Inl IndexError"
  by (simp add: get_at_def set_at_def raw_view_def mv_setitem_def)

text \<open>
  Claim C10: on a raw view (no struct) the property \<^verbatim>\<open>size\<close> raises \<^verbatim>\<open>AttributeError\<close>;
  on a record view it returns the packed size times the element count; so it returns a
  number exactly on record views.
\<close>

theorem size_view_raw_raises:
  "(smh_struct v = None \<longrightarrow> size_view v = Inl AttributeError)
   \<and> (\<forall>s. smh_struct v = Some s \<longrightarrow> size_view v = Inr (int (struct_size s) * smh_length v))
   \<and> ((\<exists>n. size_view v = Inr n) \<longleftrightarrow> smh_struct v \<noteq> None)"
  by (auto simp add: size_view_def split: option.splits)

theorem size_view_raw_raises_witness:
  "smh_struct raw_view = None \<and> size_view raw_view = Inl AttributeError
   \<and> smh_struct bbb_view = Some struct_BBB \<and> size_view bbb_view = Inr 6"
  using size_view_raw_raises [of raw_view] size_view_raw_raises [of bbb_view]
  by (simp add: raw_view_def bbb_view_def struct_BBB_def)

section \<open>The name generator\<close>

lemma length_random_part: "length (random_part k n) = k"
  by (induction k arbitrary: n) simp_all

lemma length_LOOKUP: "length LOOKUP = 64"
  by (simp add: LOOKUP_def)

lemma set_random_part: "set (random_part k n) \<subseteq> set LOOKUP"
proof (induction k arbitrary: n)
  case 0
  then show ?case by simp
next
  case (Suc k)
  have "n mod 64 < length LOOKUP" by (simp add: length_LOOKUP)
  then have "LOOKUP ! (n mod 64) \<in> set LOOKUP" by (rule nth_mem)
  with Suc.IH [of "n div 64"] show ?case by simp
qed

lemma set_LOOKUP: "set LOOKUP = alphabet"
  by (auto simp add: LOOKUP_def alphabet_def)

text \<open>The table has 64 entries and 63 distinct symbols: the underscore stands twice.\<close>

lemma card_set_LOOKUP: "card (set LOOKUP) = 63"
  by code_simp

text \<open>
  Claim C5 on a process whose name has 31 characters: \<^verbatim>\<open>rest_length\<close> is \<open>-1\<close>, the loop
  does not run, and the generated name is the process name alone, with 31 characters
  where \<open>MAX_NAME_LENGTH\<close> is 30 and without any random character; the next draw gives
  the very same name.
\<close>

theorem random_name_long_process_name:
  "int (length (current_process_name st_long)) = 31
   \<and> MAX_NAME_LENGTH = 30
   \<and> fst (random_name st_long) = ''ForkPoolWorker-1234567890123456''
   \<and> int (length (fst (random_name st_long))) \<noteq> MAX_NAME_LENGTH
   \<and> fst (random_name (snd (random_name st_long))) = fst (random_name st_long)"
  by (simp add: random_name_def st_long_def st_init_def MAX_NAME_LENGTH_def Let_def)

section \<open>Creation\<close>

text \<open>
  Claim C8: a size that is not positive makes \<^verbatim>\<open>add_shared_memory\<close> raise \<^verbatim>\<open>ValueError\<close>
  with the state as it was (no platform call logged, both dictionaries untouched, no
  random draw), whatever the fuel; the constructor does the same for a length that is
  not positive.
\<close>

theorem nonpositive_size_rejected:
  "(sz \<le> 0 \<longrightarrow> add_shared_memory fuel sz st = Some (Inl ValueError, st))
   \<and> (len \<le> 0 \<longrightarrow> init_view fuel len struct st = Some (Inl ValueError, st))"
  by (cases fuel) (simp_all add: init_view_def)

theorem nonpositive_size_rejected_witness:
  "add_shared_memory 5 0 st_init = Some (Inl ValueError, st_init)
   \<and> init_view 5 (- 3) (Some struct_BBB) st_init = Some (Inl ValueError, st_init)"
  using nonpositive_size_rejected [of 0 5 st_init "- 3" "Some struct_BBB"] by simp

section \<open>The registry invariant\<close>

text \<open>The platform calls and the name generator leave both dictionaries alone.\<close>

lemma random_name_registries:
  "local_shared_memory_objects (snd (random_name st)) = local_shared_memory_objects st"
  "global_shared_memory_objects (snd (random_name st)) = global_shared_memory_objects st"
  by (simp_all add: random_name_def Let_def)

lemma create_registries:
  "local_shared_memory_objects (snd (SharedMemory_create n sz st)) = local_shared_memory_objects st"
  "global_shared_memory_objects (snd (SharedMemory_create n sz st)) = global_shared_memory_objects st"
  by (simp_all add: SharedMemory_create_def Let_def split: option.splits)

lemma attach_registries:
  "local_shared_memory_objects (snd (SharedMemory_attach n st)) = local_shared_memory_objects st"
  "global_shared_memory_objects (snd (SharedMemory_attach n st)) = global_shared_memory_objects st"
  by (simp_all add: SharedMemory_attach_def Let_def split: option.splits)

lemma close_registries:
  "local_shared_memory_objects (snd (SharedMemory_close shm st)) = local_shared_memory_objects st"
  "global_shared_memory_objects (snd (SharedMemory_close shm st)) = global_shared_memory_objects st"
  by (simp_all add: SharedMemory_close_def Let_def split: option.splits)

lemma unlink_registries:
  "local_shared_memory_objects (snd (SharedMemory_unlink shm st)) = local_shared_memory_objects st"
  "global_shared_memory_objects (snd (SharedMemory_unlink shm st)) = global_shared_memory_objects st"
  by (simp_all add: SharedMemory_unlink_def Let_def split: option.splits)

lemma partitions_disjoint_mono:
  assumes "partitions_disjoint st"
    and "fst ` set (local_shared_memory_objects st1) \<subseteq> fst ` set (local_shared_memory_objects st)"
    and "fst ` set (global_shared_memory_objects st1) \<subseteq> fst ` set (global_shared_memory_objects st)"
  shows "partitions_disjoint st1"
  using assms unfolding partitions_disjoint_def by blast

text \<open>The loop ends only on a name that is a key of neither dictionary.\<close>

lemma while_name_taken_result:
  "while_name_taken fuel name st = Some (nm, st1) \<Longrightarrow>
     local_shared_memory_objects st1 = local_shared_memory_objects st
   \<and> global_shared_memory_objects st1 = global_shared_memory_objects st
   \<and> map_of (global_shared_memory_objects st) nm = None
   \<and> map_of (local_shared_memory_objects st) nm = None"
proof (induction fuel arbitrary: name st)
  case 0
  then show ?case by (auto split: if_splits)
next
  case (Suc fuel)
  show ?case
  proof (cases "map_of (global_shared_memory_objects st) name \<noteq> None
         \<or> map_of (local_shared_memory_objects st) name \<noteq> None")
    case True
    obtain n2 st2 where r: "random_name st = (n2, st2)" by (cases "random_name st")
    with True Suc.prems have "while_name_taken fuel n2 st2 = Some (nm, st1)" by simp
    from Suc.IH[OF this] random_name_registries[of st] r show ?thesis by simp
  next
    case False
    with Suc.prems show ?thesis by auto
  qed
qed

lemma add_shared_memory_disjoint:
  "add_shared_memory fuel sz st = Some (r, st') \<Longrightarrow> partitions_disjoint st \<Longrightarrow> partitions_disjoint st'"
proof (induction fuel arbitrary: st r st')
  case 0
  then show ?case by (auto split: if_splits)
next
  case (Suc fuel)
  show ?case
  proof (cases "sz \<le> 0")
    case True
    with Suc.prems show ?thesis by simp
  next
    case False
    obtain n0 st0 where r0: "random_name st = (n0, st0)" by (cases "random_name st")
    from Suc.prems False r0 obtain name st1 where w: "while_name_taken fuel n0 st0 = Some (name, st1)"
      by (auto split: option.splits)
    from while_name_taken_result[OF w] random_name_registries[of st] r0
    have reg1: "local_shared_memory_objects st1 = local_shared_memory_objects st"
        "global_shared_memory_objects st1 = global_shared_memory_objects st"
        "map_of (global_shared_memory_objects st) name = None" by simp_all
    obtain c st2 where cr: "SharedMemory_create name sz st1 = (c, st2)" by (cases "SharedMemory_create name sz st1")
    from create_registries[of name sz st1] cr reg1
    have reg2: "local_shared_memory_objects st2 = local_shared_memory_objects st"
        "global_shared_memory_objects st2 = global_shared_memory_objects st" by simp_all
    show ?thesis
    proof (cases c)
      case (Inr shm)
      with Suc.prems False r0 w cr have "st' = st2\<lparr>local_shared_memory_objects :=
                                      AList.update name shm (local_shared_memory_objects st2)\<rparr>" by simp
      then have "fst ` set (local_shared_memory_objects st') = insert name (fst ` set (local_shared_memory_objects st))"
          and "global_shared_memory_objects st' = global_shared_memory_objects st"
        using reg2 by (simp_all add: AList.dom_update)
      moreover from reg1(3) have "name \<notin> fst ` set (global_shared_memory_objects st)"
        by (simp add: map_of_eq_None_iff)
      ultimately show ?thesis using Suc.prems(2)
        by (simp add: partitions_disjoint_def)
    next
      case (Inl e)
      show ?thesis
      proof (cases "e = FileExistsError")
        case False
        with Inl Suc.prems \<open>\<not> sz \<le> 0\<close> r0 w cr have "st' = st2" by (cases e) auto
        with reg2 Suc.prems(2) show ?thesis by (simp add: partitions_disjoint_def)
      next
        case True
        obtain a st3 where at: "SharedMemory_attach name st2 = (a, st3)" by (cases "SharedMemory_attach name st2")
        from attach_registries[of name st2] at reg2
        have reg3: "local_shared_memory_objects st3 = local_shared_memory_objects st"
          "global_shared_memory_objects st3 = global_shared_memory_objects st" by simp_all
        show ?thesis
        proof (cases a)
          case (Inl e3)
          with True \<open>c = Inl e\<close> Suc.prems \<open>\<not> sz \<le> 0\<close> r0 w cr at have "st' = st3" by simp
          with reg3 Suc.prems(2) show ?thesis by (simp add: partitions_disjoint_def)
        next
          case (Inr stale)
          obtain b st4 where cl: "SharedMemory_close stale st3 = (b, st4)" by (cases "SharedMemory_close stale st3")
          from close_registries[of stale st3] cl reg3
          have reg4: "local_shared_memory_objects st4 = local_shared_memory_objects st"
            "global_shared_memory_objects st4 = global_shared_memory_objects st" by simp_all
          show ?thesis
          proof (cases b)
            case (Inl e4)
            with Inr True \<open>c = Inl e\<close> Suc.prems \<open>\<not> sz \<le> 0\<close> r0 w cr at cl have "st' = st4" by simp
            with reg4 Suc.prems(2) show ?thesis by (simp add: partitions_disjoint_def)
          next
            case (Inr stale1)
            obtain u st5 where ul: "SharedMemory_unlink stale1 st4 = (u, st5)" by (cases "SharedMemory_unlink stale1 st4")
            from unlink_registries[of stale1 st4] ul reg4
            have reg5: "local_shared_memory_objects st5 = local_shared_memory_objects st"
              "global_shared_memory_objects st5 = global_shared_memory_objects st" by simp_all
            then have d5: "partitions_disjoint st5" using Suc.prems(2) by (simp add: partitions_disjoint_def)
            show ?thesis
            proof (cases u)
              case (Inl e5)
              with Inr \<open>a = Inr stale\<close> True \<open>c = Inl e\<close> Suc.prems \<open>\<not> sz \<le> 0\<close> r0 w cr at cl ul have "st' = st5" by simp
              with d5 show ?thesis by simp
            next
              case (Inr x)
              with \<open>b = Inr stale1\<close> \<open>a = Inr stale\<close> True \<open>c = Inl e\<close> Suc.prems \<open>\<not> sz \<le> 0\<close> r0 w cr at cl ul
              obtain r6 where "add_shared_memory fuel sz st5 = Some (r6, st')"
                by (auto split: option.splits sum.splits)
              from Suc.IH[OF this d5] show ?thesis .
            qed
          qed
        qed
      qed
    qed
  qed
qed

text \<open>In both lookups the two \<^verbatim>\<open>except\<close> outcomes coincide: whatever the attachment
  raises is what the lookup raises.\<close>

lemma get_memory_view_eq:
  "get_memory_view name st =
     (case map_of (local_shared_memory_objects st) name of
        Some shm \<Rightarrow> (Inr (shm_buf shm), st)
      | None \<Rightarrow>
          (case map_of (global_shared_memory_objects st) name of
             Some shm \<Rightarrow> (Inr (shm_buf shm), st)
           | None \<Rightarrow>
               (case fst (SharedMemory_attach name st) of
                  Inr shm \<Rightarrow>
                    (Inr (shm_buf shm),
                     (snd (SharedMemory_attach name st))\<lparr>global_shared_memory_objects :=
                        AList.update name shm
                          (global_shared_memory_objects (snd (SharedMemory_attach name st)))\<rparr>)
                | Inl e \<Rightarrow> (Inl e, snd (SharedMemory_attach name st)))))"
  by (simp add: get_memory_view_def split: option.splits prod.splits sum.splits error.splits)

lemma get_shared_memory_eq:
  "get_shared_memory name st =
     (case map_of (local_shared_memory_objects st) name of
        Some shm \<Rightarrow> (Inr shm, st)
      | None \<Rightarrow>
          (case map_of (global_shared_memory_objects st) name of
             Some shm \<Rightarrow> (Inr shm, st)
           | None \<Rightarrow>
               (case fst (SharedMemory_attach name st) of
                  Inr shm \<Rightarrow>
                    (Inr shm,
                     (snd (SharedMemory_attach name st))\<lparr>global_shared_memory_objects :=
                        AList.update name shm
                          (global_shared_memory_objects (snd (SharedMemory_attach name st)))\<rparr>)
                | Inl e \<Rightarrow> (Inl e, snd (SharedMemory_attach name st)))))"
  by (simp add: get_shared_memory_def split: option.splits prod.splits sum.splits error.splits)

lemma lookup_registries_view:
  "partitions_disjoint st \<Longrightarrow> partitions_disjoint (snd (get_memory_view name st))"
  by (auto simp add: get_memory_view_eq attach_registries partitions_disjoint_def
        AList.dom_update map_of_eq_None_iff split: option.splits sum.splits)

lemma lookup_registries_shm:
  "partitions_disjoint st \<Longrightarrow> partitions_disjoint (snd (get_shared_memory name st))"
  by (auto simp add: get_shared_memory_eq attach_registries partitions_disjoint_def
        AList.dom_update map_of_eq_None_iff split: option.splits sum.splits)

lemma store_closed_keys:
  "map_of (local_shared_memory_objects st) name \<noteq> None \<or> map_of (global_shared_memory_objects st) name \<noteq> None \<Longrightarrow>
   fst ` set (local_shared_memory_objects (store_closed name shm st)) = fst ` set (local_shared_memory_objects st)
   \<and> fst ` set (global_shared_memory_objects (store_closed name shm st)) = fst ` set (global_shared_memory_objects st)"
  by (auto simp add: store_closed_def AList.dom_update map_of_eq_None_iff)

lemma get_shared_memory_found:
  "get_shared_memory name st = (Inr shm, st1) \<Longrightarrow>
     map_of (local_shared_memory_objects st1) name \<noteq> None
     \<or> map_of (global_shared_memory_objects st1) name \<noteq> None"
  by (auto simp add: get_shared_memory_eq AList.update_conv' split: option.splits sum.splits)

lemma exit_view_disjoint:
  assumes inv: "partitions_disjoint st"
  shows "partitions_disjoint (snd (exit_view v st))"
proof (cases "smh_name v")
  case None
  with inv show ?thesis by (simp add: exit_view_def)
next
  case (Some name)
  obtain r st1 where g: "get_shared_memory name st = (r, st1)"
    by (cases "get_shared_memory name st")
  from lookup_registries_shm [OF inv, of name] g have inv1: "partitions_disjoint st1" by simp
  show ?thesis
  proof (cases r)
    case (Inl e)
    with Some g inv1 show ?thesis by (simp add: exit_view_def)
  next
    case (Inr shm)
    from get_shared_memory_found g Inr
    have found: "map_of (local_shared_memory_objects st1) name \<noteq> None
       \<or> map_of (global_shared_memory_objects st1) name \<noteq> None" by blast
    obtain c st2 where cl: "SharedMemory_close shm st1 = (c, st2)"
      by (cases "SharedMemory_close shm st1")
    from close_registries [of shm st1] cl
    have reg2: "local_shared_memory_objects st2 = local_shared_memory_objects st1"
      "global_shared_memory_objects st2 = global_shared_memory_objects st1" by simp_all
    with inv1 have inv2: "partitions_disjoint st2" by (simp add: partitions_disjoint_def)
    show ?thesis
    proof (cases c)
      case (Inl e)
      with Some g Inr cl inv2 show ?thesis by (simp add: exit_view_def)
    next
      case (Inr shm1)
      let ?st2 = "store_closed name shm1 st2"
      from found reg2 store_closed_keys [of st2 name shm1]
      have keys: "fst ` set (local_shared_memory_objects ?st2) = fst ` set (local_shared_memory_objects st2)"
        "fst ` set (global_shared_memory_objects ?st2) = fst ` set (global_shared_memory_objects st2)"
        by simp_all
      with inv2 have inv2': "partitions_disjoint ?st2" by (simp add: partitions_disjoint_def)
      obtain u st3 where ul: "SharedMemory_unlink shm1 ?st2 = (u, st3)"
        by (cases "SharedMemory_unlink shm1 ?st2")
      from unlink_registries [of shm1 ?st2] ul
      have reg3: "local_shared_memory_objects st3 = local_shared_memory_objects ?st2"
        "global_shared_memory_objects st3 = global_shared_memory_objects ?st2" by simp_all
      with inv2' have inv3: "partitions_disjoint st3" by (simp add: partitions_disjoint_def)
      have del: "partitions_disjoint
         (st3\<lparr>local_shared_memory_objects := AList.delete name (local_shared_memory_objects st3)\<rparr>)"
        using inv3 AList.dom_delete_subset [of name "local_shared_memory_objects st3"]
        by (intro partitions_disjoint_mono [OF inv3]) simp_all
      from Some g \<open>r = Inr shm\<close> cl Inr ul inv3 del show ?thesis
        by (cases u) (simp_all add: exit_view_def split: option.splits)
    qed
  qed
qed

section \<open>The sweep at process exit\<close>

text \<open>Each loop body in closed form: closing raises exactly when the object is open and has
  exported sub-views; unlinking a name that is gone raises \<^verbatim>\<open>FileNotFoundError\<close>, which is
  passed over, and leaves the segments as deleting the name does.\<close>

lemma reported_None: "reported message process_name None = []"
  by (simp add: reported_def)

lemma reported_gone: "reported message process_name (Some FileNotFoundError) = []"
  by (simp add: reported_def)

lemma except_clauses_eq:
  "except_clauses message e st =
     st\<lparr>printed := printed st @ reported message (current_process_name st) (Some e)\<rparr>"
  by (cases e) (simp_all add: except_clauses_def reported_def)

lemma cleanup_global_body_eq:
  "cleanup_global_body shm st =
     ((case close_error (platform_fault st) shm of
         None \<Rightarrow> shm\<lparr>shm_buf := None\<rparr>
       | Some e \<Rightarrow> shm),
      st\<lparr>calls := calls st @ [Close (shm_name shm)],
         printed := printed st @ reported ErrorClosingOutside (current_process_name st)
                                  (close_error (platform_fault st) shm)\<rparr>)"
  by (simp add: cleanup_global_body_def SharedMemory_close_def except_clauses_eq Let_def
        reported_None split: option.splits)

lemma cleanup_local_body_eq:
  "cleanup_local_body shm st =
     (case close_error (platform_fault st) shm of
        Some e \<Rightarrow>
          (shm, st\<lparr>calls := calls st @ [Close (shm_name shm)],
                  printed := printed st @ reported ErrorClosingWithin (current_process_name st) (Some e)\<rparr>)
      | None \<Rightarrow>
          (shm\<lparr>shm_buf := None\<rparr>,
           st\<lparr>calls := calls st @ [Close (shm_name shm), Unlink (shm_name shm)],
              printed := printed st @ reported ErrorClosingWithin (current_process_name st)
                                       (platform_fault st (Unlink (shm_name shm))),
              segments := (if platform_fault st (Unlink (shm_name shm)) = None
                           then AList.delete (shm_name shm) (segments st) else segments st)\<rparr>))"
  by (auto simp add: cleanup_local_body_def SharedMemory_close_def SharedMemory_unlink_def
        except_clauses_eq Let_def reported_None reported_gone map_of_eq_None_iff
        split: option.splits)

lemma for_values_keys: "map fst (fst (for_values body xs st)) = map fst xs"
  by (induction xs arbitrary: st) (auto simp add: case_prod_beta)

lemma for_global_frame:
  "current_process_name (snd (for_values cleanup_global_body xs st)) = current_process_name st
   \<and> platform_fault (snd (for_values cleanup_global_body xs st)) = platform_fault st
   \<and> local_shared_memory_objects (snd (for_values cleanup_global_body xs st)) = local_shared_memory_objects st
   \<and> segments (snd (for_values cleanup_global_body xs st)) = segments st"
  by (induction xs arbitrary: st) (auto simp add: cleanup_global_body_eq case_prod_beta)

lemma for_global_calls:
  "calls (snd (for_values cleanup_global_body xs st)) =
     calls st @ map (\<lambda>(k, shm). Close (shm_name shm)) xs"
  by (induction xs arbitrary: st) (auto simp add: cleanup_global_body_eq case_prod_beta)

lemma for_global_printed:
  "printed (snd (for_values cleanup_global_body xs st)) =
     printed st
     @ concat (map (\<lambda>(k, shm). reported ErrorClosingOutside (current_process_name st)
                                 (close_error (platform_fault st) shm)) xs)"
  by (induction xs arbitrary: st) (auto simp add: cleanup_global_body_eq case_prod_beta)

lemma for_local_frame:
  "current_process_name (snd (for_values cleanup_local_body xs st)) = current_process_name st
   \<and> platform_fault (snd (for_values cleanup_local_body xs st)) = platform_fault st
   \<and> global_shared_memory_objects (snd (for_values cleanup_local_body xs st)) = global_shared_memory_objects st"
  by (induction xs arbitrary: st)
     (auto simp add: cleanup_local_body_eq case_prod_beta split: option.splits)

lemma for_local_calls_gen:
  "platform_fault st = fault \<Longrightarrow>
   calls (snd (for_values cleanup_local_body xs st)) =
     calls st
     @ concat (map (\<lambda>(k, shm). case close_error fault shm of
                                  Some e \<Rightarrow> [Close (shm_name shm)]
                                | None \<Rightarrow> [Close (shm_name shm), Unlink (shm_name shm)]) xs)"
proof (induction xs arbitrary: st)
  case Nil
  then show ?case by simp
next
  case (Cons x xs)
  obtain k shm where x: "x = (k, shm)" by (cases x)
  have "platform_fault (snd (cleanup_local_body shm st)) = fault"
    using Cons.prems by (simp add: cleanup_local_body_eq split: option.splits)
  from Cons.IH [OF this] Cons.prems x show ?case
    by (simp add: case_prod_beta cleanup_local_body_eq split: option.splits)
qed

lemma for_local_printed_gen:
  "platform_fault st = fault \<Longrightarrow> current_process_name st = pn \<Longrightarrow>
   printed (snd (for_values cleanup_local_body xs st)) =
     printed st
     @ concat (map (\<lambda>(k, shm). reported ErrorClosingWithin pn
                                 (case close_error fault shm of
                                    Some e \<Rightarrow> Some e
                                  | None \<Rightarrow> fault (Unlink (shm_name shm)))) xs)"
proof (induction xs arbitrary: st)
  case Nil
  then show ?case by simp
next
  case (Cons x xs)
  obtain k shm where x: "x = (k, shm)" by (cases x)
  have "platform_fault (snd (cleanup_local_body shm st)) = fault"
    and "current_process_name (snd (cleanup_local_body shm st)) = pn"
    using Cons.prems by (simp_all add: cleanup_local_body_eq split: option.splits)
  from Cons.IH [OF this] Cons.prems x show ?case
    by (simp add: case_prod_beta cleanup_local_body_eq split: option.splits)
qed

lemma for_local_calls:
  "calls (snd (for_values cleanup_local_body xs st)) =
     calls st
     @ concat (map (\<lambda>(k, shm). case close_error (platform_fault st) shm of
                                  Some e \<Rightarrow> [Close (shm_name shm)]
                                | None \<Rightarrow> [Close (shm_name shm), Unlink (shm_name shm)]) xs)"
  by (rule for_local_calls_gen) simp

lemma for_local_printed:
  "printed (snd (for_values cleanup_local_body xs st)) =
     printed st
     @ concat (map (\<lambda>(k, shm). reported ErrorClosingWithin (current_process_name st)
                                 (case close_error (platform_fault st) shm of
                                    Some e \<Rightarrow> Some e
                                  | None \<Rightarrow> platform_fault st (Unlink (shm_name shm)))) xs)"
  by (rule for_local_printed_gen) simp_all

lemma cleanup_unfold:
  "cleanup st =
     (let r1 = for_values cleanup_global_body (global_shared_memory_objects st) st;
          st2 = (snd r1)\<lparr>global_shared_memory_objects := fst r1\<rparr>;
          r2 = for_values cleanup_local_body (local_shared_memory_objects st2) st2
      in (snd r2)\<lparr>local_shared_memory_objects := fst r2\<rparr>)"
  by (simp add: cleanup_def Let_def case_prod_beta)

lemma cleanup_keys:
  "map fst (global_shared_memory_objects (cleanup st)) = map fst (global_shared_memory_objects st)
   \<and> map fst (local_shared_memory_objects (cleanup st)) = map fst (local_shared_memory_objects st)"
  by (simp add: cleanup_unfold Let_def for_local_frame for_global_frame for_values_keys)

lemma cleanup_disjoint: "partitions_disjoint st \<Longrightarrow> partitions_disjoint (cleanup st)"
proof -
  assume inv: "partitions_disjoint st"
  have "set (map fst (global_shared_memory_objects (cleanup st))) = set (map fst (global_shared_memory_objects st))"
    and "set (map fst (local_shared_memory_objects (cleanup st))) = set (map fst (local_shared_memory_objects st))"
    using cleanup_keys [of st] by simp_all
  then have "fst ` set (global_shared_memory_objects (cleanup st)) = fst ` set (global_shared_memory_objects st)"
    and "fst ` set (local_shared_memory_objects (cleanup st)) = fst ` set (local_shared_memory_objects st)"
    by simp_all
  with inv show ?thesis by (simp add: partitions_disjoint_def)
qed

lemma cleanup_calls_printed:
  "calls (cleanup st) =
     calls st
     @ map (\<lambda>(k, shm). Close (shm_name shm)) (global_shared_memory_objects st)
     @ concat (map (\<lambda>(k, shm). case close_error (platform_fault st) shm of
                                  Some e \<Rightarrow> [Close (shm_name shm)]
                                | None \<Rightarrow> [Close (shm_name shm), Unlink (shm_name shm)])
                   (local_shared_memory_objects st))
   \<and> printed (cleanup st) =
     printed st
     @ concat (map (\<lambda>(k, shm). reported ErrorClosingOutside (current_process_name st)
                                 (close_error (platform_fault st) shm))
                   (global_shared_memory_objects st))
     @ concat (map (\<lambda>(k, shm). reported ErrorClosingWithin (current_process_name st)
                                 (case close_error (platform_fault st) shm of
                                    Some e \<Rightarrow> Some e
                                  | None \<Rightarrow> platform_fault st (Unlink (shm_name shm))))
                   (local_shared_memory_objects st))"
proof -
  let ?r1 = "for_values cleanup_global_body (global_shared_memory_objects st) st"
  let ?st2 = "(snd ?r1)\<lparr>global_shared_memory_objects := fst ?r1\<rparr>"
  let ?r2 = "for_values cleanup_local_body (local_shared_memory_objects st) ?st2"
  have c: "cleanup st = (snd ?r2)\<lparr>local_shared_memory_objects := fst ?r2\<rparr>"
    by (simp add: cleanup_unfold Let_def for_global_frame)
  have fault: "platform_fault ?st2 = platform_fault st"
    and pn: "current_process_name ?st2 = current_process_name st"
    by (simp_all add: for_global_frame)
  have calls2: "calls ?st2 =
      calls st @ map (\<lambda>(k, shm). Close (shm_name shm)) (global_shared_memory_objects st)"
    by (simp add: for_global_calls)
  have printed2: "printed ?st2 =
      printed st
      @ concat (map (\<lambda>(k, shm). reported ErrorClosingOutside (current_process_name st)
                                  (close_error (platform_fault st) shm))
                    (global_shared_memory_objects st))"
    by (simp add: for_global_printed)
  show ?thesis
    unfolding c
    using for_local_calls_gen [OF fault, of "local_shared_memory_objects st"]
      for_local_printed_gen [OF fault pn, of "local_shared_memory_objects st"]
      calls2 printed2
    by (simp add: for_values_keys)
qed

text \<open>
  Claim C7: the sweep calls \<^verbatim>\<open>close\<close> on every attached object, in dictionary order, then
  on every created object \<^verbatim>\<open>close\<close> followed by \<^verbatim>\<open>unlink\<close> (the \<^verbatim>\<open>unlink\<close> is skipped for an
  object whose \<^verbatim>\<open>close\<close> raised); for each object it prints nothing when the calls
  returned or raised \<^verbatim>\<open>FileNotFoundError\<close> and one report for any other error; no entry is
  skipped and the keys of both dictionaries stay as they were. The statement holds for
  every state, so for every pattern of exported sub-views, missing segments and faults
  of the system.
\<close>

theorem cleanup_trace:
  "calls (cleanup st) =
     calls st
     @ map (\<lambda>(k, shm). Close (shm_name shm)) (global_shared_memory_objects st)
     @ concat (map (\<lambda>(k, shm). case close_error (platform_fault st) shm of
                                  Some e \<Rightarrow> [Close (shm_name shm)]
                                | None \<Rightarrow> [Close (shm_name shm), Unlink (shm_name shm)])
                   (local_shared_memory_objects st))
   \<and> printed (cleanup st) =
     printed st
     @ concat (map (\<lambda>(k, shm). reported ErrorClosingOutside (current_process_name st)
                                 (close_error (platform_fault st) shm))
                   (global_shared_memory_objects st))
     @ concat (map (\<lambda>(k, shm). reported ErrorClosingWithin (current_process_name st)
                                 (case close_error (platform_fault st) shm of
                                    Some e \<Rightarrow> Some e
                                  | None \<Rightarrow> platform_fault st (Unlink (shm_name shm))))
                   (local_shared_memory_objects st))
   \<and> map fst (global_shared_memory_objects (cleanup st)) = map fst (global_shared_memory_objects st)
   \<and> map fst (local_shared_memory_objects (cleanup st)) = map fst (local_shared_memory_objects st)"
  by (simp add: cleanup_calls_printed cleanup_keys)

theorem cleanup_trace_witness:
  "calls (cleanup st_sweep) =
     [Close other_name, Close name0, Unlink name0, Close name1, Unlink name1]
   \<and> printed (cleanup st_sweep) =
       [ErrorClosingOutside ''MainProcess'' BufferError, ErrorClosingWithin ''MainProcess'' OSError]
   \<and> map fst (global_shared_memory_objects (cleanup st_sweep)) = [other_name]
   \<and> map fst (local_shared_memory_objects (cleanup st_sweep)) = [name0, name1]"
  using cleanup_trace [of st_sweep]
  by (simp add: st_sweep_def st_init_def close_error_def reported_def name0_def name1_def
        other_name_def)

section \<open>A name collision at creation\<close>

lemma random_part_19_0: "random_part 19 0 = ''0000000000000000000''"
  by code_simp

lemma random_part_19_1: "random_part 19 (Suc 0) = ''1000000000000000000''"
  by code_simp

lemma replicate_4: "replicate 4 x = [x, x, x, x]"
  by (simp add: numeral_Bit0 replicate_add)

lemma add_shared_memory_stale:
  "add_shared_memory 2 4 st_stale =
     Some (Inr None,
           st_init\<lparr>uuid4_drawn := 2,
             local_shared_memory_objects :=
               [(name1, \<lparr>shm_name = name1, shm_buf = Some [0, 0, 0, 0], shm_exports = 0\<rparr>)],
             segments := [(name1, [0, 0, 0, 0])],
             calls := [Create name0, Attach name0, Close name0, Unlink name0, Create name1]\<rparr>)"
  by (simp add: numeral_2_eq_2 random_name_def st_stale_def st_init_def name0_def name1_def
        MAX_NAME_LENGTH_def random_part_19_0 random_part_19_1
        SharedMemory_create_def SharedMemory_attach_def SharedMemory_close_def
        SharedMemory_unlink_def close_error_def Let_def replicate_4)

text \<open>
  Claim C4 on the process that finds a stale segment under the first name it generates:
  the call recovers (it attaches to the stale segment, closes and unlinks it, then
  creates and registers a segment under the next name), but it returns \<^verbatim>\<open>None\<close> and not
  the name of the new segment, because the \<^verbatim>\<open>except FileExistsError\<close> branch drops the
  result of the nested call.
\<close>

theorem add_shared_memory_collision_returns_None:
  "map_of (segments st_stale) name0 = Some [1, 2, 3, 4]
   \<and> map_option fst (add_shared_memory 2 4 st_stale) = Some (Inr None)
   \<and> map_option (\<lambda>r. map fst (local_shared_memory_objects (snd r))) (add_shared_memory 2 4 st_stale)
       = Some [name1]
   \<and> map_option (\<lambda>r. calls (snd r)) (add_shared_memory 2 4 st_stale)
       = Some [Create name0, Attach name0, Close name0, Unlink name0, Create name1]"
  by (simp add: add_shared_memory_stale) (simp add: st_stale_def st_init_def)

text \<open>The constructor then fails: it looks up the name \<^verbatim>\<open>None\<close>.\<close>

lemma init_view_after_collision:
  "map_option fst (init_view 2 4 (None :: int struct option) st_stale) = Some (Inl ValueError)"
  by (simp add: init_view_def add_shared_memory_stale)

section \<open>Release through the context manager\<close>

lemma st_attached_eq:
  "st_attached =
     st_other\<lparr>calls := [Attach other_name],
       global_shared_memory_objects :=
         [(other_name, \<lparr>shm_name = other_name, shm_buf = Some [0, 0, 0], shm_exports = 0\<rparr>)]\<rparr>"
  by (simp add: st_attached_def get_memory_view_def st_other_def st_init_def
        SharedMemory_attach_def Let_def)

text \<open>
  Claim C3 on a process that only attached to another process's segment: the name is a
  key of the foreign dictionary and not of the local one, and \<^verbatim>\<open>__exit__\<close> of a view on
  it still calls \<^verbatim>\<open>unlink\<close>; the segment is destroyed, and only the final
  \<^verbatim>\<open>del local_shared_memory_objects[name]\<close> fails, with \<^verbatim>\<open>KeyError\<close>.
\<close>

theorem exit_view_unlinks_foreign_segment:
  "map fst (local_shared_memory_objects st_attached) = []
   \<and> map fst (global_shared_memory_objects st_attached) = [other_name]
   \<and> segments st_attached = [(other_name, [0, 0, 0])]
   \<and> fst (exit_view foreign_view st_attached) = Inl KeyError
   \<and> calls (snd (exit_view foreign_view st_attached))
       = calls st_attached @ [Close other_name, Unlink other_name]
   \<and> segments (snd (exit_view foreign_view st_attached)) = []"
  by (simp add: st_attached_eq exit_view_def foreign_view_def get_shared_memory_def
        st_other_def st_init_def SharedMemory_close_def SharedMemory_unlink_def
        close_error_def store_closed_def Let_def)

section \<open>Lookup\<close>

text \<open>Storing under a key that is absent appends the entry.\<close>

lemma update_absent: "map_of al k = None \<Longrightarrow> AList.update k v al = al @ [(k, v)]"
  by (induction al) (auto split: if_splits)


text \<open>
  What both lookups do, case by case: they return the local entry when the name is a
  local key, otherwise the foreign entry when it is a foreign key, in both cases without
  a platform call and without a change of state; otherwise they try to attach, and
  then they append the new object to the foreign dictionary when a segment of that
  name exists, raise \<^verbatim>\<open>FileNotFoundError\<close> when none exists, and raise whatever else the
  system raised when it refused the call. In the last two cases only the call is logged.
\<close>

theorem lookup_cases:
  "(\<forall>shm. map_of (local_shared_memory_objects st) name = Some shm \<longrightarrow>
       get_memory_view name st = (Inr (shm_buf shm), st)
       \<and> get_shared_memory name st = (Inr shm, st))
   \<and> (\<forall>shm. map_of (local_shared_memory_objects st) name = None
          \<and> map_of (global_shared_memory_objects st) name = Some shm \<longrightarrow>
       get_memory_view name st = (Inr (shm_buf shm), st)
       \<and> get_shared_memory name st = (Inr shm, st))
   \<and> (\<forall>bytes. map_of (local_shared_memory_objects st) name = None
          \<and> map_of (global_shared_memory_objects st) name = None
          \<and> platform_fault st (Attach name) = None
          \<and> map_of (segments st) name = Some bytes \<longrightarrow>
       get_memory_view name st =
         (Inr (Some bytes),
          st\<lparr>calls := calls st @ [Attach name],
             global_shared_memory_objects :=
               global_shared_memory_objects st
               @ [(name, \<lparr>shm_name = name, shm_buf = Some bytes, shm_exports = 0\<rparr>)]\<rparr>)
       \<and> get_shared_memory name st =
         (Inr \<lparr>shm_name = name, shm_buf = Some bytes, shm_exports = 0\<rparr>,
          st\<lparr>calls := calls st @ [Attach name],
             global_shared_memory_objects :=
               global_shared_memory_objects st
               @ [(name, \<lparr>shm_name = name, shm_buf = Some bytes, shm_exports = 0\<rparr>)]\<rparr>))
   \<and> (map_of (local_shared_memory_objects st) name = None
          \<and> map_of (global_shared_memory_objects st) name = None
          \<and> platform_fault st (Attach name) = None
          \<and> map_of (segments st) name = None \<longrightarrow>
       get_memory_view name st = (Inl FileNotFoundError, st\<lparr>calls := calls st @ [Attach name]\<rparr>)
       \<and> get_shared_memory name st = (Inl FileNotFoundError, st\<lparr>calls := calls st @ [Attach name]\<rparr>))
   \<and> (\<forall>e. map_of (local_shared_memory_objects st) name = None
          \<and> map_of (global_shared_memory_objects st) name = None
          \<and> platform_fault st (Attach name) = Some e \<longrightarrow>
       get_memory_view name st = (Inl e, st\<lparr>calls := calls st @ [Attach name]\<rparr>)
       \<and> get_shared_memory name st = (Inl e, st\<lparr>calls := calls st @ [Attach name]\<rparr>))"
  by (auto simp add: get_memory_view_eq get_shared_memory_eq SharedMemory_attach_def Let_def
        update_absent split: option.splits)

theorem lookup_cases_witness:
  "get_memory_view other_name st_attached = (Inr (Some [0, 0, 0]), st_attached)
   \<and> get_memory_view other_name st_other = (Inr (Some [0, 0, 0]), st_attached)
   \<and> get_memory_view other_name st_init =
       (Inl FileNotFoundError, st_init\<lparr>calls := [Attach other_name]\<rparr>)
   \<and> get_shared_memory [] st_refusing = (Inl OSError, st_refusing\<lparr>calls := [Attach []]\<rparr>)"
  using lookup_cases [of st_attached other_name] lookup_cases [of st_other other_name]
    lookup_cases [of st_init other_name] lookup_cases [of st_refusing "[]"]
  by (simp add: st_attached_eq st_other_def st_init_def st_refusing_def)

section \<open>The registry invariant, for every operation\<close>

lemma init_view_disjoint:
  assumes "init_view fuel len struct st = Some (r, st1)" and "partitions_disjoint st"
  shows "partitions_disjoint st1"
proof (cases "len \<le> 0")
  case True
  with assms show ?thesis by (simp add: init_view_def)
next
  case False
  let ?sz = "case struct of Some s \<Rightarrow> int (struct_size s) * len | None \<Rightarrow> len"
  from assms(1) False obtain r2 st2 where a: "add_shared_memory fuel ?sz st = Some (r2, st2)"
    by (auto simp add: init_view_def Let_def split: option.splits)
  from add_shared_memory_disjoint [OF a assms(2)] have d2: "partitions_disjoint st2" .
  show ?thesis
  proof (cases r2)
    case (Inl e)
    with assms(1) False a d2 show ?thesis by (simp add: init_view_def Let_def)
  next
    case (Inr nm)
    show ?thesis
    proof (cases nm)
      case None
      with Inr assms(1) False a d2 show ?thesis by (simp add: init_view_def Let_def)
    next
      case (Some name)
      from lookup_registries_view [OF d2, of name]
      have "partitions_disjoint (snd (get_memory_view name st2))" .
      with Some Inr assms(1) False a show ?thesis
        by (auto simp add: init_view_def Let_def split: prod.splits sum.splits)
    qed
  qed
qed

text \<open>
  Claim C9: if no name is a key of both dictionaries, the same holds after
  \<^verbatim>\<open>add_shared_memory\<close> and the constructor (whenever they return or raise), after both
  lookups, after the sweep and after \<^verbatim>\<open>__exit__\<close>, whether they succeed or raise.
\<close>

theorem partitions_disjoint_preserved:
  assumes "partitions_disjoint st"
  shows "(\<forall>r st1. add_shared_memory fuel sz st = Some (r, st1) \<longrightarrow> partitions_disjoint st1)
       \<and> (\<forall>r st1. init_view fuel len struct st = Some (r, st1) \<longrightarrow> partitions_disjoint st1)
       \<and> partitions_disjoint (snd (get_memory_view name st))
       \<and> partitions_disjoint (snd (get_shared_memory name st))
       \<and> partitions_disjoint (cleanup st)
       \<and> partitions_disjoint (snd (exit_view v st))"
  using assms add_shared_memory_disjoint init_view_disjoint lookup_registries_view
    lookup_registries_shm cleanup_disjoint exit_view_disjoint
  by blast

theorem partitions_disjoint_preserved_witness:
  "partitions_disjoint st_sweep
   \<and> partitions_disjoint (cleanup st_sweep)
   \<and> partitions_disjoint (snd (get_memory_view other_name st_sweep))
   \<and> partitions_disjoint (snd (get_shared_memory name0 st_sweep))
   \<and> partitions_disjoint (snd (exit_view raw_view st_sweep))
   \<and> partitions_disjoint st_stale
   \<and> (\<exists>r st1. add_shared_memory 2 4 st_stale = Some (r, st1) \<and> partitions_disjoint st1)"
proof -
  have h1: "partitions_disjoint st_sweep"
    by (simp add: partitions_disjoint_def st_sweep_def st_init_def name0_def name1_def
          other_name_def)
  have h2: "partitions_disjoint st_stale"
    by (simp add: partitions_disjoint_def st_stale_def st_init_def)
  from partitions_disjoint_preserved [OF h1, of 0 0 0 None other_name raw_view]
    partitions_disjoint_preserved [OF h1, of 0 0 0 None name0 raw_view]
    partitions_disjoint_preserved [OF h2, of 2 4 0 None name0 raw_view]
    add_shared_memory_stale h1 h2
  show ?thesis by blast
qed

section \<open>Further properties of indexed access\<close>

text \<open>
  The second half of claim C1 holds on the code: an index at or beyond the length, or
  below minus the length, makes \<^verbatim>\<open>get_at\<close> and \<^verbatim>\<open>set_at\<close> raise \<^verbatim>\<open>IndexError\<close>, in every
  mode and whatever the view is bound to.
\<close>

theorem index_out_of_range_raises:
  "smh_length v \<le> i \<or> i < - smh_length v \<Longrightarrow>
     get_at v i = Inl IndexError \<and> set_at v i x = Inl IndexError"
  by (simp add: get_at_out_of_range set_at_out_of_range)

theorem index_out_of_range_raises_witness:
  "get_at raw_view 2 = Inl IndexError \<and> set_at raw_view 2 (PyInt 7) = Inl IndexError
   \<and> get_at raw_view (- 3) = Inl IndexError \<and> set_at raw_view (- 3) (PyInt 7) = Inl IndexError"
  using index_out_of_range_raises [of raw_view 2 "PyInt 7"]
    index_out_of_range_raises [of raw_view "- 3" "PyInt 7"]
  by (simp add: raw_view_def)

text \<open>
  The two slips of \<^verbatim>\<open>get_at\<close> in general form: it raises \<^verbatim>\<open>IndexError\<close> for index \<open>0\<close> and for
  every negative index, on every view.
\<close>

theorem get_at_nonpositive_index_raises:
  "i \<le> 0 \<Longrightarrow> get_at v i = Inl IndexError"
  by (cases "i = 0") (simp_all add: get_at_zero get_at_negative)

theorem get_at_nonpositive_index_raises_witness:
  "get_at bbb_view 0 = Inl IndexError \<and> get_at bbb_view (- 2) = Inl IndexError"
  using get_at_nonpositive_index_raises [of 0 bbb_view]
    get_at_nonpositive_index_raises [of "- 2" bbb_view]
  by simp

text \<open>
  Reading back what was stored. A byte survives the passage through the buffer.
\<close>

lemma uint_byte: "0 \<le> k \<Longrightarrow> k \<le> 255 \<Longrightarrow> uint (word_of_int k :: byte) = k"
  by (simp add: uint_word_of_int take_bit_int_eq_self)

lemma raw_round_trip:
  assumes "smh_struct v = None" and "smh_data v = Some d" and "smh_length v \<le> int (length d)"
    and "0 < i" and "i < smh_length v" and "0 \<le> k" and "k \<le> 255"
  shows "set_at v i (PyInt k) = Inr (v\<lparr>smh_data := Some (d[nat i := word_of_int k])\<rparr>)
       \<and> get_at (v\<lparr>smh_data := Some (d[nat i := word_of_int k])\<rparr>) i = Inr (PyInt k)"
  using assms
  by (simp add: get_at_def set_at_def mv_setitem_def mv_getitem_def Let_def uint_byte)

lemma record_round_trip:
  assumes s: "smh_struct v = Some s" and d: "smh_data v = Some d"
    and fits: "int (struct_size s) * smh_length v \<le> int (length d)"
    and i: "0 < i" "i < smh_length v"
    and p: "struct_pack s vs = Some bs" and len: "length bs = struct_size s"
  shows "set_at v i (PyTuple vs) =
           Inr (v\<lparr>smh_data := Some (take (nat (int (struct_size s) * i)) d @ bs
                                       @ drop (nat (int (struct_size s) * i) + length bs) d)\<rparr>)
       \<and> get_at (v\<lparr>smh_data := Some (take (nat (int (struct_size s) * i)) d @ bs
                                       @ drop (nat (int (struct_size s) * i) + length bs) d)\<rparr>) i
           = Inr (PyTuple (struct_unpack s bs))"
proof -
  let ?off = "int (struct_size s) * i"
  have off0: "0 \<le> ?off" using i by simp
  have "int (struct_size s) * (i + 1) \<le> int (struct_size s) * smh_length v"
    using i by (intro mult_left_mono) simp_all
  with fits have room: "?off + int (struct_size s) \<le> int (length d)"
    by (simp add: algebra_simps)
  then have room_nat: "nat ?off + struct_size s \<le> length d" using off0 by linarith
  let ?d = "take (nat ?off) d @ bs @ drop (nat ?off + length bs) d"
  have setv: "set_at v i (PyTuple vs) = Inr (v\<lparr>smh_data := Some ?d\<rparr>)"
    using s d i p off0 room by (simp add: set_at_def pack_into_def Let_def mult_less_0_iff)
  have lend: "length ?d = length d" using room_nat len by simp
  have "drop (nat ?off) ?d = bs @ drop (nat ?off + length bs) d"
    using room_nat by simp
  then have rd: "take (struct_size s) (drop (nat ?off) ?d) = bs" using len by simp
  have getv: "get_at (v\<lparr>smh_data := Some ?d\<rparr>) i = Inr (PyTuple (struct_unpack s bs))"
    using s i off0 room lend rd by (simp add: get_at_def unpack_from_def Let_def mult_less_0_iff)
  from setv getv show ?thesis by simp
qed

text \<open>
  What holds of claim C2 on the code: at every index \<open>i\<close> with \<open>0 < i < length\<close> of a view
  bound to a buffer that is large enough, \<^verbatim>\<open>set_at\<close> followed by \<^verbatim>\<open>get_at\<close> returns the byte
  itself in raw mode, and in record mode the tuple that unpacking the packed value
  gives, for every Struct whose packing yields \<open>struct_size\<close> bytes.
\<close>

theorem set_at_get_at_round_trip:
  assumes "0 < i" and "i < smh_length v" and "smh_data v = Some d"
  shows "(smh_struct v = None \<and> smh_length v \<le> int (length d) \<and> 0 \<le> k \<and> k \<le> 255 \<longrightarrow>
            (\<exists>v1. set_at v i (PyInt k) = Inr v1 \<and> get_at v1 i = Inr (PyInt k)))
       \<and> (\<forall>s bs. smh_struct v = Some s \<and> int (struct_size s) * smh_length v \<le> int (length d)
              \<and> struct_pack s vs = Some bs \<and> length bs = struct_size s \<longrightarrow>
            (\<exists>v1. set_at v i (PyTuple vs) = Inr v1
                   \<and> get_at v1 i = Inr (PyTuple (struct_unpack s bs))))"
  using assms raw_round_trip [of v d i k] record_round_trip [of v _ d i vs]
  by blast

theorem set_at_get_at_round_trip_witness:
  "(\<exists>v1. set_at raw_view 1 (PyInt 7) = Inr v1 \<and> get_at v1 1 = Inr (PyInt 7))
   \<and> (\<exists>v1. set_at bbb_view 1 (PyTuple [7, 8, 9]) = Inr v1
            \<and> get_at v1 1 = Inr (PyTuple [7, 8, 9]))"
proof -
  have a: "(0::int) < 1" by simp
  have b: "1 < smh_length raw_view" "smh_data raw_view = Some [10, 20]"
    by (simp_all add: raw_view_def)
  have c: "1 < smh_length bbb_view" "smh_data bbb_view = Some [1, 2, 3, 4, 5, 6]"
    by (simp_all add: bbb_view_def)
  have p: "struct_pack struct_BBB [7, 8, 9] = Some [7, 8, 9]"
    by (simp add: struct_BBB_def)
  have u: "struct_unpack struct_BBB [7, 8, 9] = [7, 8, 9]"
    by (simp add: struct_BBB_def)
  from set_at_get_at_round_trip [OF a b, of 7 "[]"]
  have 1: "\<exists>v1. set_at raw_view 1 (PyInt 7) = Inr v1 \<and> get_at v1 1 = Inr (PyInt 7)"
    by (simp add: raw_view_def)
  from set_at_get_at_round_trip [OF a c, of 0 "[7, 8, 9]"] p u
  have 2: "\<exists>v1. set_at bbb_view 1 (PyTuple [7, 8, 9]) = Inr v1
            \<and> get_at v1 1 = Inr (PyTuple [7, 8, 9])"
    by (simp add: bbb_view_def struct_BBB_def)
  from 1 2 show ?thesis by simp
qed

section \<open>Further properties of the sweep and of creation\<close>

text \<open>
  The half of claim C3 that holds on the code: every \<^verbatim>\<open>unlink\<close> that the sweep issues is
  on an object of the local dictionary.
\<close>

theorem cleanup_unlinks_local_only:
  "Unlink n \<in> set (drop (length (calls st)) (calls (cleanup st))) \<Longrightarrow>
     n \<in> shm_name ` snd ` set (local_shared_memory_objects st)"
proof -
  assume "Unlink n \<in> set (drop (length (calls st)) (calls (cleanup st)))"
  with cleanup_calls_printed [of st]
  obtain k shm where "(k, shm) \<in> set (local_shared_memory_objects st)" and "n = shm_name shm"
    by (auto split: option.splits)
  then have "shm \<in> snd ` set (local_shared_memory_objects st)" by force
  with \<open>n = shm_name shm\<close> show ?thesis by simp
qed

theorem cleanup_unlinks_local_only_witness:
  "Unlink name0 \<in> set (drop (length (calls st_sweep)) (calls (cleanup st_sweep)))
   \<and> name0 \<in> shm_name ` snd ` set (local_shared_memory_objects st_sweep)
   \<and> Unlink other_name \<notin> set (calls (cleanup st_sweep))"
proof -
  have c: "calls (cleanup st_sweep) =
     [Close other_name, Close name0, Unlink name0, Close name1, Unlink name1]"
    using cleanup_calls_printed [of st_sweep]
    by (simp add: st_sweep_def st_init_def close_error_def name0_def name1_def other_name_def)
  have u: "Unlink name0 \<in> set (drop (length (calls st_sweep)) (calls (cleanup st_sweep)))"
    by (simp add: c) (simp add: st_sweep_def st_init_def)
  from cleanup_unlinks_local_only [OF u] u c show ?thesis
    by (simp add: name0_def name1_def other_name_def)
qed

text \<open>
  The name generator and the retry loop make no platform call and touch no segment.
\<close>

lemma random_name_frame:
  "calls (snd (random_name st)) = calls st \<and> segments (snd (random_name st)) = segments st"
  by (simp add: random_name_def Let_def)

lemma while_name_taken_frame:
  "while_name_taken fuel name st = Some (nm, st1) \<Longrightarrow>
     calls st1 = calls st \<and> segments st1 = segments st"
proof (induction fuel arbitrary: name st)
  case 0
  then show ?case by (auto split: if_splits)
next
  case (Suc fuel)
  show ?case
  proof (cases "map_of (global_shared_memory_objects st) name \<noteq> None
         \<or> map_of (local_shared_memory_objects st) name \<noteq> None")
    case True
    obtain n2 st2 where r: "random_name st = (n2, st2)" by (cases "random_name st")
    with True Suc.prems have "while_name_taken fuel n2 st2 = Some (nm, st1)" by simp
    from Suc.IH [OF this] random_name_frame [of st] r show ?thesis by simp
  next
    case False
    with Suc.prems show ?thesis by auto
  qed
qed

text \<open>
  The slip behind claim C4 in general form: whenever \<^verbatim>\<open>add_shared_memory\<close> returns a name,
  the one platform call it made is the creation of that name, which did not exist before
  and is now a key of the local dictionary; so after a collision it never returns a name.
\<close>

theorem add_shared_memory_name_only_without_collision:
  assumes "add_shared_memory fuel sz st = Some (Inr (Some n), st1)"
  shows "calls st1 = calls st @ [Create n]
       \<and> map_of (local_shared_memory_objects st1) n \<noteq> None
       \<and> map_of (segments st) n = None"
proof (cases fuel)
  case 0
  with assms show ?thesis by (simp split: if_splits)
next
  case (Suc f)
  from assms Suc have pos: "\<not> sz \<le> 0" by (auto split: if_splits)
  obtain n0 st0 where r0: "random_name st = (n0, st0)" by (cases "random_name st")
  from assms Suc pos r0 obtain nm stw where w: "while_name_taken f n0 st0 = Some (nm, stw)"
    by (auto split: option.splits)
  from while_name_taken_frame [OF w] random_name_frame [of st] r0
  have fr: "calls stw = calls st" "segments stw = segments st" by simp_all
  obtain c st2 where cr: "SharedMemory_create nm sz stw = (c, st2)"
    by (cases "SharedMemory_create nm sz stw")
  from assms Suc pos r0 w cr obtain shm where c: "c = Inr shm"
    by (cases c) (auto split: error.splits prod.splits sum.splits option.splits)
  from assms Suc pos r0 w cr c
  have res: "n = shm_name shm"
    "st1 = st2\<lparr>local_shared_memory_objects := AList.update nm shm (local_shared_memory_objects st2)\<rparr>"
    by simp_all
  from cr c pos fr have "shm_name shm = nm \<and> calls st2 = calls st @ [Create nm]
      \<and> map_of (segments st) nm = None"
    by (auto simp add: SharedMemory_create_def Let_def split: option.splits)
  with res show ?thesis by (simp add: AList.update_conv')
qed

theorem add_shared_memory_name_only_without_collision_witness:
  "add_shared_memory 2 4 st_init =
     Some (Inr (Some name0),
           st_init\<lparr>uuid4_drawn := 1,
             local_shared_memory_objects :=
               [(name0, \<lparr>shm_name = name0, shm_buf = Some [0, 0, 0, 0], shm_exports = 0\<rparr>)],
             segments := [(name0, [0, 0, 0, 0])],
             calls := [Create name0]\<rparr>)
   \<and> map_of (segments st_init) name0 = None"
proof -
  have e: "add_shared_memory 2 4 st_init =
     Some (Inr (Some name0),
           st_init\<lparr>uuid4_drawn := 1,
             local_shared_memory_objects :=
               [(name0, \<lparr>shm_name = name0, shm_buf = Some [0, 0, 0, 0], shm_exports = 0\<rparr>)],
             segments := [(name0, [0, 0, 0, 0])],
             calls := [Create name0]\<rparr>)"
    by (simp add: numeral_2_eq_2 random_name_def st_init_def name0_def
          MAX_NAME_LENGTH_def random_part_19_0 SharedMemory_create_def Let_def replicate_4)
  from add_shared_memory_name_only_without_collision [OF e] e show ?thesis by simp
qed

section \<open>Further properties of the name generator\<close>

text \<open>
  The \<open>j\<close>-th character of the random part is the table entry of the \<open>j\<close>-th base-64 digit
  of the drawn number, lowest digit first.
\<close>

lemma nth_random_part:
  "j < k \<Longrightarrow> random_part k n ! j = LOOKUP ! ((n div 64 ^ j) mod 64)"
proof (induction k arbitrary: n j)
  case 0
  then show ?case by simp
next
  case (Suc k)
  show ?case
  proof (cases j)
    case 0
    then show ?thesis by simp
  next
    case (Suc i)
    with Suc.prems have "i < k" by simp
    from Suc.IH [OF this, of "n div 64"] Suc show ?thesis
      by (simp add: div_mult2_eq)
  qed
qed

text \<open>
  What holds of claim C5 on the code: when the process name has at most
  \<open>MAX_NAME_LENGTH\<close> characters, the generated name has exactly \<open>MAX_NAME_LENGTH\<close>
  characters, starts with the process name, and continues with the base-64 digits of the
  number drawn from the random source, lowest first, each written as the entry of the
  64-entry table, whose symbols are the digits, the underscore and the upper-case and
  lower-case letters; one number is drawn.
\<close>

theorem random_name_shape:
  assumes "int (length (current_process_name st)) \<le> MAX_NAME_LENGTH"
  shows "int (length (fst (random_name st))) = MAX_NAME_LENGTH
       \<and> take (length (current_process_name st)) (fst (random_name st)) = current_process_name st
       \<and> (\<forall>j. int (length (current_process_name st)) + int j < MAX_NAME_LENGTH \<longrightarrow>
             fst (random_name st) ! (length (current_process_name st) + j)
               = LOOKUP ! ((uuid4_int st (uuid4_drawn st) div 64 ^ j) mod 64))
       \<and> set (drop (length (current_process_name st)) (fst (random_name st))) \<subseteq> set LOOKUP
       \<and> set LOOKUP = alphabet \<and> length LOOKUP = 64
       \<and> uuid4_drawn (snd (random_name st)) = Suc (uuid4_drawn st)"
  using assms set_random_part
  by (simp add: random_name_def Let_def length_random_part set_LOOKUP length_LOOKUP
        nth_append nth_random_part)

theorem random_name_shape_witness:
  "int (length (current_process_name st_init)) \<le> MAX_NAME_LENGTH
   \<and> int (length (fst (random_name st_init))) = MAX_NAME_LENGTH
   \<and> take (length (current_process_name st_init)) (fst (random_name st_init))
       = current_process_name st_init
   \<and> fst (random_name st_init) ! (length (current_process_name st_init) + 0) = CHR ''0''
   \<and> set (drop (length (current_process_name st_init)) (fst (random_name st_init))) \<subseteq> set LOOKUP"
proof -
  have h: "int (length (current_process_name st_init)) \<le> MAX_NAME_LENGTH"
    by (simp add: st_init_def MAX_NAME_LENGTH_def)
  have j: "int (length (current_process_name st_init)) + int 0 < MAX_NAME_LENGTH"
    by (simp add: st_init_def MAX_NAME_LENGTH_def)
  have l: "LOOKUP ! ((uuid4_int st_init (uuid4_drawn st_init) div 64 ^ 0) mod 64) = CHR ''0''"
    by (simp add: st_init_def LOOKUP_def)
  from random_name_shape [OF h] h j l show ?thesis by (metis (no_types, lifting))
qed

text \<open>
  A process name of \<open>MAX_NAME_LENGTH\<close> characters or more leaves no room for a random part:
  every draw returns the process name, and once that name is registered the loop
  \<^verbatim>\<open>while name in ...: name = _random_name()\<close> cannot end.
\<close>

lemma random_name_long:
  "MAX_NAME_LENGTH \<le> int (length (current_process_name st)) \<Longrightarrow>
     random_name st = (current_process_name st, st\<lparr>uuid4_drawn := Suc (uuid4_drawn st)\<rparr>)"
  by (simp add: random_name_def Let_def)

lemma while_name_taken_long:
  "MAX_NAME_LENGTH \<le> int (length (current_process_name st)) \<Longrightarrow>
   map_of (global_shared_memory_objects st) (current_process_name st) \<noteq> None
     \<or> map_of (local_shared_memory_objects st) (current_process_name st) \<noteq> None \<Longrightarrow>
   while_name_taken fuel (current_process_name st) st = None"
proof (induction fuel arbitrary: st)
  case 0
  then show ?case by auto
next
  case (Suc fuel)
  let ?st = "st\<lparr>uuid4_drawn := Suc (uuid4_drawn st)\<rparr>"
  have "while_name_taken fuel (current_process_name ?st) ?st = None"
    using Suc.prems by (intro Suc.IH) simp_all
  with Suc.prems show ?case by (auto simp add: random_name_long)
qed

text \<open>
  So in such a process, once its name is a key of either dictionary (after its first
  segment, for one), \<^verbatim>\<open>add_shared_memory\<close> does not return: no amount of fuel suffices.
\<close>

theorem add_shared_memory_long_name_never_returns:
  assumes "MAX_NAME_LENGTH \<le> int (length (current_process_name st))"
    and "map_of (global_shared_memory_objects st) (current_process_name st) \<noteq> None
         \<or> map_of (local_shared_memory_objects st) (current_process_name st) \<noteq> None"
    and "0 < sz"
  shows "add_shared_memory fuel sz st = None"
proof (cases fuel)
  case 0
  with assms(3) show ?thesis by simp
next
  case (Suc f)
  let ?st = "st\<lparr>uuid4_drawn := Suc (uuid4_drawn st)\<rparr>"
  have "while_name_taken f (current_process_name ?st) ?st = None"
    using assms(1,2) by (intro while_name_taken_long) simp_all
  with assms Suc show ?thesis by (simp add: random_name_long)
qed

theorem add_shared_memory_long_name_never_returns_witness:
  "add_shared_memory 1 4 st_long = Some (Inr (Some (current_process_name st_long)), st_long_created)
   \<and> MAX_NAME_LENGTH \<le> int (length (current_process_name st_long_created))
   \<and> map_of (local_shared_memory_objects st_long_created) (current_process_name st_long_created) \<noteq> None
   \<and> add_shared_memory 9 4 st_long_created = None"
proof -
  have a: "MAX_NAME_LENGTH \<le> int (length (current_process_name st_long_created))"
    by (simp add: st_long_created_def st_long_def st_init_def MAX_NAME_LENGTH_def)
  have b: "map_of (local_shared_memory_objects st_long_created) (current_process_name st_long_created) \<noteq> None"
    by (simp add: st_long_created_def st_long_def st_init_def)
  have c: "(0::int) < 4" by simp
  have d: "add_shared_memory 1 4 st_long =
      Some (Inr (Some (current_process_name st_long)), st_long_created)"
    by (simp add: random_name_def st_long_created_def st_long_def st_init_def MAX_NAME_LENGTH_def
          SharedMemory_create_def Let_def replicate_4)
  from add_shared_memory_long_name_never_returns [OF a disjI2 [OF b] c, of 9] a b d
  show ?thesis by simp
qed

end
